theory Spec2Isabelle
  imports Complex_Main
begin

section \<open>Python strings\<close>

text \<open>
  A Python \<open>str\<close> is a sequence of Unicode code points and \<open>len\<close> counts code points,
  so a string is modelled as a list of code points. \<open>u\<close> turns an ASCII literal into
  such a list.
\<close>

type_synonym uchar = nat
type_synonym ustr = "uchar list"

definition u :: "string \<Rightarrow> ustr" where
  "u s = map of_char s"

text \<open>
  The characters Python treats as whitespace, both in \<open>str.strip\<close>/\<open>str.split\<close> and in
  the regular expression class \<open>\s\<close> on \<open>str\<close> patterns.
\<close>

definition isspace :: "uchar \<Rightarrow> bool" where
  "isspace c \<longleftrightarrow>
     (9 \<le> c \<and> c \<le> 13) \<or> (28 \<le> c \<and> c \<le> 32) \<or> c = 0x85 \<or> c = 0xA0 \<or> c = 0x1680 \<or>
     (0x2000 \<le> c \<and> c \<le> 0x200A) \<or> c = 0x2028 \<or> c = 0x2029 \<or> c = 0x202F \<or>
     c = 0x205F \<or> c = 0x3000"

text \<open>\<open>s.strip()\<close>: drop leading and trailing whitespace.\<close>

definition strip :: "ustr \<Rightarrow> ustr" where
  "strip s = rev (dropWhile isspace (rev (dropWhile isspace s)))"

text \<open>\<open>s.split()\<close>: the maximal runs of non-whitespace characters.\<close>

function split_ws :: "ustr \<Rightarrow> ustr list" where
  "split_ws s =
     (let t = dropWhile isspace s
      in if t = [] then []
         else takeWhile (\<lambda>c. \<not> isspace c) t # split_ws (dropWhile (\<lambda>c. \<not> isspace c) t))"
  by pat_completeness auto
termination
proof (relation "measure length")
  fix s t :: ustr
  assume t: "t = dropWhile isspace s" and ne: "t \<noteq> []"
  from ne obtain c cs where tc: "t = c # cs" by (cases t) auto
  have "\<not> isspace c" using t tc by (simp add: eq_commute [of "c # cs"] dropWhile_eq_Cons_conv)
  then have "length (dropWhile (\<lambda>c. \<not> isspace c) t) < length t"
    using tc length_dropWhile_le [of "\<lambda>c. \<not> isspace c" cs] by simp
  also have "length t \<le> length s" using t by (simp add: length_dropWhile_le)
  finally show "(dropWhile (\<lambda>c. \<not> isspace c) t, s) \<in> measure length" by simp
qed simp

declare split_ws.simps [simp del]

text \<open>\<open>sep.join(xs)\<close>.\<close>

fun join :: "ustr \<Rightarrow> ustr list \<Rightarrow> ustr" where
  "join sep [] = []"
| "join sep [x] = x"
| "join sep (x # y # ys) = x @ sep @ join sep (y # ys)"

text \<open>
  \<open>xs[i:]\<close> for a Python integer \<open>i\<close>: a negative start counts from the end and is
  clamped at the beginning of the list; \<open>xs[-0:]\<close> is \<open>xs[0:]\<close>, the whole list.
\<close>

definition slice_from :: "int \<Rightarrow> 'a list \<Rightarrow> 'a list" where
  "slice_from i xs = (if i < 0 then drop (nat (int (length xs) + i)) xs else drop (nat i) xs)"

text \<open>\<open>s.replace(a, b)\<close> for a single character \<open>a\<close>.\<close>

definition replace :: "uchar \<Rightarrow> ustr \<Rightarrow> ustr \<Rightarrow> ustr" where
  "replace a b s = concat (map (\<lambda>c. if c = a then b else [c]) s)"

section \<open>core/text\_utils.py\<close>

subsection \<open>clean\_text\<close>

text \<open>\<open>re.sub(r'\s+', ' ', text)\<close>: every maximal run of whitespace becomes one space.\<close>

function collapse_ws :: "ustr \<Rightarrow> ustr" where
  "collapse_ws [] = []"
| "collapse_ws (c # cs) =
     (if isspace c then 32 # collapse_ws (dropWhile isspace cs) else c # collapse_ws cs)"
  by pat_completeness auto
termination
  by (relation "measure length") (auto simp: length_dropWhile_le less_Suc_eq_le)

text \<open>The class \<open>[\x00-\x08\x0b\x0c\x0e-\x1f\x7f-\x9f]\<close>.\<close>

definition is_nonprintable :: "uchar \<Rightarrow> bool" where
  "is_nonprintable c \<longleftrightarrow> c \<le> 8 \<or> c = 11 \<or> c = 12 \<or> (14 \<le> c \<and> c \<le> 31) \<or> (127 \<le> c \<and> c \<le> 159)"

text \<open>
  \<open>clean_text\<close>. The steps inside its \<open>try\<close> block are total on strings, so the handler
  that would raise \<open>ProcessingError\<close> is never entered and the model returns a string.
\<close>

definition clean_text :: "ustr \<Rightarrow> ustr" where
  "clean_text text =
     (if text = [] then []
      else
        let text = collapse_ws text;
            text = replace 0x2019 (u [CHR 0x27]) (replace 0x2018 (u [CHR 0x27]) text);
            text = replace 0x201D (u [CHR 0x22]) (replace 0x201C (u [CHR 0x22]) text);
            text = replace 0x2014 (u ''--'') (replace 0x2013 (u ''-'') text);
            text = replace 0x2026 (u ''...'') text;
            text = filter (\<lambda>c. \<not> is_nonprintable c) text
        in strip text)"

subsection \<open>split\_into\_sentences\<close>

text \<open>
  The regular-expression class \<open>\w\<close> on a \<open>str\<close> pattern: ASCII letters, digits and the
  underscore, and the alphanumeric characters of the Unicode database beyond ASCII. That
  table belongs to the Python runtime; it is the parameter \<open>W\<close>.
\<close>

definition is_word :: "(uchar \<Rightarrow> bool) \<Rightarrow> uchar \<Rightarrow> bool" where
  "is_word W c \<longleftrightarrow>
     (48 \<le> c \<and> c \<le> 57) \<or> (65 \<le> c \<and> c \<le> 90) \<or> c = 95 \<or> (97 \<le> c \<and> c \<le> 122) \<or>
     (128 \<le> c \<and> W c)"

text \<open>
  The pattern \<open>(?<!\w\.\w.)(?<![A-Z][a-z]\.)(?<=\.|\?|\!)\s\<close> matches one whitespace
  character, judged by the characters before it. \<open>p\<close> is the text before the character,
  last character first.
\<close>

definition behind_end :: "ustr \<Rightarrow> bool" where
  "behind_end p = (case p of [] \<Rightarrow> False | a # _ \<Rightarrow> a = 46 \<or> a = 63 \<or> a = 33)"

definition behind_abbrev :: "(uchar \<Rightarrow> bool) \<Rightarrow> ustr \<Rightarrow> bool" where
  "behind_abbrev W p =
     (case p of d # c # b # a # _ \<Rightarrow> is_word W a \<and> b = 46 \<and> is_word W c \<and> d \<noteq> 10
      | _ \<Rightarrow> False)"

definition behind_title :: "ustr \<Rightarrow> bool" where
  "behind_title p =
     (case p of c # b # a # _ \<Rightarrow> (65 \<le> a \<and> a \<le> 90) \<and> (97 \<le> b \<and> b \<le> 122) \<and> c = 46
      | _ \<Rightarrow> False)"

definition boundary :: "(uchar \<Rightarrow> bool) \<Rightarrow> ustr \<Rightarrow> uchar \<Rightarrow> bool" where
  "boundary W p c \<longleftrightarrow> \<not> behind_abbrev W p \<and> \<not> behind_title p \<and> behind_end p \<and> isspace c"

text \<open>
  \<open>re.split(pattern, text)\<close>: the pieces between the matches. \<open>p\<close> is the text already
  read, last character first, and \<open>cur\<close> the piece being read.
\<close>

fun re_split :: "(uchar \<Rightarrow> bool) \<Rightarrow> ustr \<Rightarrow> ustr \<Rightarrow> ustr \<Rightarrow> ustr list" where
  "re_split W p cur [] = [cur]"
| "re_split W p cur (c # cs) =
     (if boundary W p c then cur # re_split W (c # p) [] cs
      else re_split W (c # p) (cur @ [c]) cs)"

definition split_into_sentences :: "(uchar \<Rightarrow> bool) \<Rightarrow> ustr \<Rightarrow> ustr list" where
  "split_into_sentences W text =
     (if text = [] then []
      else map strip (filter (\<lambda>s. strip s \<noteq> []) (re_split W [] [] text)))"

subsection \<open>split\_text\_into\_chunks\<close>

text \<open>
  The loop over the sentences, with the list of closed chunks and the running buffer
  \<open>current_chunk\<close> as its state.
\<close>

fun chunk_loop :: "int \<Rightarrow> int \<Rightarrow> ustr list \<Rightarrow> ustr list \<Rightarrow> ustr \<Rightarrow> ustr list \<times> ustr" where
  "chunk_loop chunk_size overlap [] chunks current_chunk = (chunks, current_chunk)"
| "chunk_loop chunk_size overlap (sentence # rest) chunks current_chunk =
     (if int (length current_chunk) + int (length sentence) > chunk_size then
        let ws = split_ws current_chunk;
            overlap_text = join (u '' '') (slice_from (- min (int (length ws)) overlap) ws)
        in chunk_loop chunk_size overlap rest (chunks @ [strip current_chunk])
             (overlap_text @ u '' '' @ sentence)
      else
        chunk_loop chunk_size overlap rest chunks
          (if current_chunk \<noteq> [] then current_chunk @ u '' '' @ sentence else sentence))"

definition split_text_into_chunks :: "(uchar \<Rightarrow> bool) \<Rightarrow> ustr \<Rightarrow> int \<Rightarrow> int \<Rightarrow> ustr list" where
  "split_text_into_chunks W text chunk_size overlap =
     (if text = [] then []
      else
        let text = clean_text text
        in if int (length text) \<le> chunk_size then [text]
           else
             let sentences = split_into_sentences W text;
                 (chunks, current_chunk) = chunk_loop chunk_size overlap sentences [] []
             in if strip current_chunk \<noteq> [] then chunks @ [strip current_chunk] else chunks)"

text \<open>
  A table for \<open>\w\<close> with no alphanumeric character beyond ASCII; on ASCII text the
  table is never consulted.
\<close>

definition ascii_only :: "uchar \<Rightarrow> bool" where
  "ascii_only c = False"

section \<open>core/exceptions.py\<close>

text \<open>
  The exceptions the modelled code raises. \<open>FileError\<close>, \<open>ProcessingError\<close> and
  \<open>ConversionError\<close> are raised by handlers that put \<open>str(e)\<close> of the exception they
  caught into their message; the model keeps that exception as their argument.
  \<open>IndexError i\<close> is the error "Chapter index out of range: i", \<open>ListIndexError\<close>
  the one Python raises for a list index out of range. \<open>External\<close> is an exception
  raised inside a collaborator (the synthesis backend, FFmpeg, a parsing library).
\<close>

datatype error =
    IndexError int
  | ListIndexError
  | NameError
  | AttributeError
  | TypeError
  | External
  | FileError error
  | ProcessingError error
  | ConversionError error

section \<open>Python lists and integers\<close>

text \<open>\<open>xs[i]\<close>: a negative index counts from the end; out of range raises.\<close>

definition py_get :: "'a list \<Rightarrow> int \<Rightarrow> error + 'a" where
  "py_get xs i =
     (if 0 \<le> i \<and> i < int (length xs) then Inr (xs ! nat i)
      else if i < 0 \<and> - int (length xs) \<le> i then Inr (xs ! nat (int (length xs) + i))
      else Inl ListIndexError)"

text \<open>\<open>xs[a:b]\<close>: both bounds are clamped to the list, a negative one counts from the
  end.\<close>

definition slice_index :: "int \<Rightarrow> nat \<Rightarrow> nat" where
  "slice_index i n = (if i < 0 then nat (int n + i) else min (nat i) n)"

definition py_slice :: "int \<Rightarrow> int \<Rightarrow> 'a list \<Rightarrow> 'a list" where
  "py_slice a b xs =
     (let lo = slice_index a (length xs); hi = slice_index b (length xs)
      in take (hi - lo) (drop lo xs))"

text \<open>\<open>str(n)\<close> for an integer.\<close>

fun str_nat :: "nat \<Rightarrow> ustr" where
  "str_nat n = (if n < 10 then [48 + n] else str_nat (n div 10) @ [48 + n mod 10])"

declare str_nat.simps [simp del]

definition str_int :: "int \<Rightarrow> ustr" where
  "str_int i = (if i < 0 then 45 # str_nat (nat (- i)) else str_nat (nat i))"

text \<open>\<open>s.split(d)\<close> for a single character \<open>d\<close>: the pieces between its occurrences,
  empty ones included.\<close>

fun split_on :: "uchar \<Rightarrow> ustr \<Rightarrow> ustr list" where
  "split_on d [] = [[]]"
| "split_on d (c # cs) =
     (if c = d then [] # split_on d cs
      else (case split_on d cs of [] \<Rightarrow> [[c]] | x # xs \<Rightarrow> (c # x) # xs))"

text \<open>The fallback title \<open>f"Chapter {chapter_index + 1}"\<close>.\<close>

definition fallback_title :: "int \<Rightarrow> ustr" where
  "fallback_title chapter_index = u ''Chapter '' @ str_int (chapter_index + 1)"

section \<open>processors/text\_processor.py\<close>

text \<open>
  A chapter of a text file is the dictionary \<open>{'title', 'start_idx', 'end_idx'}\<close>, with
  the flag \<open>is_sentence_index\<close> or \<open>is_full_text\<close> for the default chapters. A
  \<open>TextProcessor\<close> is modelled after its construction: the text read from the file
  and the chapters found in it.
\<close>

record text_chapter =
  tc_title :: ustr
  tc_start_idx :: int
  tc_end_idx :: int
  tc_is_sentence_index :: bool
  tc_is_full_text :: bool

record text_processor =
  tp_text :: ustr
  tp_chapters :: "text_chapter list"

definition TextProcessor_get_chapter_text ::
  "(uchar \<Rightarrow> bool) \<Rightarrow> text_processor \<Rightarrow> int \<Rightarrow> error + ustr" where
  "TextProcessor_get_chapter_text W p chapter_index =
     (if chapter_index < 0 \<or> chapter_index \<ge> int (length (tp_chapters p)) then
        Inl (ProcessingError (IndexError chapter_index))
      else
        let chapter = tp_chapters p ! nat chapter_index
        in if tc_is_full_text chapter then Inr (clean_text (tp_text p))
           else if tc_is_sentence_index chapter then
             (let sentences = split_into_sentences W (tp_text p);
                  start_idx = tc_start_idx chapter;
                  end_idx = tc_end_idx chapter
              in if start_idx < 0 \<or> end_idx \<ge> int (length sentences) then Inr []
                 else Inr (clean_text (join (u '' '') (py_slice start_idx (end_idx + 1) sentences))))
           else
             (let lines = split_on 10 (tp_text p);
                  start_idx = tc_start_idx chapter;
                  end_idx = tc_end_idx chapter
              in if start_idx < 0 \<or> end_idx \<ge> int (length lines) then Inr []
                 else Inr (clean_text (join [10] (py_slice start_idx (end_idx + 1) lines)))))"

text \<open>\<open>get_chapter_title\<close> catches every exception, the \<open>IndexError\<close> it raises for an
  index out of range too, and returns the fallback title.\<close>

definition TextProcessor_get_chapter_title :: "text_processor \<Rightarrow> int \<Rightarrow> ustr" where
  "TextProcessor_get_chapter_title p chapter_index =
     (if chapter_index < 0 \<or> chapter_index \<ge> int (length (tp_chapters p)) then
        fallback_title chapter_index
      else tc_title (tp_chapters p ! nat chapter_index))"

definition TextProcessor_get_full_text :: "text_processor \<Rightarrow> ustr" where
  "TextProcessor_get_full_text p = clean_text (tp_text p)"

section \<open>processors/pdf\_processor.py\<close>

text \<open>
  A page is what its \<open>extract_text()\<close> gives: the text (\<open>None\<close> and the empty string
  are both the empty text, the code skips both), or an exception.
\<close>

type_synonym page = "error + ustr"

record pdf_chapter =
  pc_title :: ustr
  pc_page_start :: int
  pc_page_end :: "int option"
  pc_level :: nat

record pdf_processor =
  pdf_pages :: "page list"
  pdf_chapters :: "pdf_chapter list"

text \<open>
  The outline of the document, as \<open>_process_outline\<close> reads it: an item is a dictionary,
  of which the keys \<open>title\<close> and \<open>page_number\<close> are read if present, or a list, or
  something else.
\<close>

datatype outline_node = Dict "ustr option" "int option" | Lst "outline_node list" | Other

definition outline_chapter :: "ustr option \<Rightarrow> int option \<Rightarrow> nat \<Rightarrow> pdf_chapter list \<Rightarrow> pdf_chapter" where
  "outline_chapter title page_number level chapters =
     \<lparr>pc_title = (case title of
                   None \<Rightarrow> u ''Chapter '' @ str_int (int (length chapters) + 1)
                 | Some t \<Rightarrow> t),
      pc_page_start = (case page_number of None \<Rightarrow> 0 | Some n \<Rightarrow> n),
      pc_page_end = None,
      pc_level = level\<rparr>"

text \<open>The two loops at the end of \<open>_process_outline\<close> that set \<open>page_end\<close>.\<close>

fun set_page_ends :: "pdf_chapter list \<Rightarrow> pdf_chapter list" where
  "set_page_ends (a # b # rest) =
     a\<lparr>pc_page_end := Some (pc_page_start b - 1)\<rparr> # set_page_ends (b # rest)"
| "set_page_ends chapters = chapters"

definition set_last_page_end :: "nat \<Rightarrow> pdf_chapter list \<Rightarrow> pdf_chapter list" where
  "set_last_page_end n_pages chapters =
     (if chapters \<noteq> [] \<and> pc_page_end (last chapters) = None then
        butlast chapters @ [(last chapters)\<lparr>pc_page_end := Some (int n_pages - 1)\<rparr>]
      else chapters)"

text \<open>\<open>_process_outline\<close>, with the list \<open>self.chapters\<close> as its state:
  \<open>process_items\<close> is its loop over the items, which calls \<open>_process_outline\<close> on
  the children of an item.\<close>

function process_items ::
  "nat \<Rightarrow> nat \<Rightarrow> outline_node list \<Rightarrow> pdf_chapter list \<Rightarrow> pdf_chapter list" where
  "process_items n_pages level [] chapters = chapters"
| "process_items n_pages level (Dict title page_number # rest) chapters =
     process_items n_pages level rest (chapters @ [outline_chapter title page_number level chapters])"
| "process_items n_pages level (Other # rest) chapters = process_items n_pages level rest chapters"
| "process_items n_pages level (Lst items # rest) chapters =
     process_items n_pages level rest
       (case items of
          [parent, children] \<Rightarrow>
            (let chapters1 =
                   (case parent of
                      Dict title page_number \<Rightarrow>
                        chapters @ [outline_chapter title page_number level chapters]
                    | _ \<Rightarrow> chapters)
             in (case children of
                   Lst cs \<Rightarrow>
                     set_last_page_end n_pages
                       (set_page_ends (process_items n_pages (level + 1) cs chapters1))
                 | _ \<Rightarrow> chapters1))
        | _ \<Rightarrow> chapters)"
  by pat_completeness auto
termination
  by (relation "measure (\<lambda>(n_pages, level, outline, chapters). size_list size outline)") auto

definition process_outline :: "nat \<Rightarrow> outline_node list \<Rightarrow> pdf_chapter list" where
  "process_outline n_pages outline =
     set_last_page_end n_pages (set_page_ends (process_items n_pages 0 outline []))"

text \<open>
  \<open>_create_default_chapters\<close>: the pages in groups of \<open>chapter_size\<close>, one chapter
  \<open>Pages a-b\<close> for each step of \<open>range(0, total_pages, chapter_size)\<close>.
\<close>

definition default_chapter :: "nat \<Rightarrow> nat \<Rightarrow> nat \<Rightarrow> pdf_chapter" where
  "default_chapter total_pages chapter_size i =
     (let page_start = int i;
          page_end = min (int i + int chapter_size - 1) (int total_pages - 1)
      in \<lparr>pc_title = u ''Pages '' @ str_int (page_start + 1) @ u ''-'' @ str_int (page_end + 1),
          pc_page_start = page_start,
          pc_page_end = Some page_end,
          pc_level = 0\<rparr>)"

definition create_default_chapters :: "nat \<Rightarrow> pdf_chapter list" where
  "create_default_chapters total_pages =
     (let chapter_size = (if total_pages \<le> 10 then 1 else if total_pages \<le> 50 then 5 else 10)
      in map (\<lambda>k. default_chapter total_pages chapter_size (k * chapter_size))
           [0..<(total_pages + chapter_size - 1) div chapter_size])"

text \<open>
  The document as \<open>pdfplumber.open\<close> gives it: its pages, and what reading the
  attribute \<open>self.pdf.outline\<close> gives. The \<open>PDF\<close> object of pdfplumber has no attribute
  \<open>outline\<close>, so reading it raises \<open>AttributeError\<close>; \<open>Inr\<close> is for a document object
  that has one.
\<close>

record pdf_document =
  doc_pages :: "page list"
  doc_outline :: "error + outline_node list"

text \<open>\<open>_extract_chapters\<close>: the chapters of the outline if there is one, the default
  chapters if it is empty or if reading it raises.\<close>

definition extract_chapters :: "pdf_document \<Rightarrow> pdf_chapter list" where
  "extract_chapters d =
     (case doc_outline d of
        Inl e \<Rightarrow> create_default_chapters (length (doc_pages d))
      | Inr outline \<Rightarrow>
          if outline \<noteq> [] then process_outline (length (doc_pages d)) outline
          else create_default_chapters (length (doc_pages d)))"

text \<open>The processor after \<open>_load_pdf\<close>.\<close>

definition load_pdf :: "pdf_document \<Rightarrow> pdf_processor" where
  "load_pdf d = \<lparr>pdf_pages = doc_pages d, pdf_chapters = extract_chapters d\<rparr>"

text \<open>The loop of \<open>get_chapter_text\<close> over the pages \<open>range(page_start, page_end + 1)\<close>.\<close>

fun page_texts :: "page list \<Rightarrow> int list \<Rightarrow> error + ustr list" where
  "page_texts pages [] = Inr []"
| "page_texts pages (i # rest) =
     (if i < int (length pages) then
        (case py_get pages i of
           Inl e \<Rightarrow> Inl e
         | Inr pg \<Rightarrow>
             (case pg of
                Inl e \<Rightarrow> Inl e
              | Inr page_text \<Rightarrow>
                  (case page_texts pages rest of
                     Inl e \<Rightarrow> Inl e
                   | Inr texts \<Rightarrow> Inr (if page_text \<noteq> [] then page_text # texts else texts))))
      else page_texts pages rest)"

definition PDFProcessor_get_chapter_text :: "pdf_processor \<Rightarrow> int \<Rightarrow> error + ustr" where
  "PDFProcessor_get_chapter_text p chapter_index =
     (if chapter_index < 0 \<or> chapter_index \<ge> int (length (pdf_chapters p)) then
        Inl (ProcessingError (IndexError chapter_index))
      else
        let chapter = pdf_chapters p ! nat chapter_index
        in (case pc_page_end chapter of
              None \<Rightarrow> Inl (ProcessingError TypeError)
            | Some page_end \<Rightarrow>
                (case page_texts (pdf_pages p) [pc_page_start chapter..page_end] of
                   Inl e \<Rightarrow> Inl (ProcessingError e)
                 | Inr texts \<Rightarrow> Inr (clean_text (join [10, 10] texts)))))"

definition PDFProcessor_get_chapter_title :: "pdf_processor \<Rightarrow> int \<Rightarrow> ustr" where
  "PDFProcessor_get_chapter_title p chapter_index =
     (if chapter_index < 0 \<or> chapter_index \<ge> int (length (pdf_chapters p)) then
        fallback_title chapter_index
      else pc_title (pdf_chapters p ! nat chapter_index))"

text \<open>One entry of the list \<open>texts\<close> of \<open>get_full_text\<close>:
  \<open>f"Chapter: {chapter_title}\n\n{chapter_text}\n\n"\<close>.\<close>

definition chapter_block :: "ustr \<Rightarrow> ustr \<Rightarrow> ustr" where
  "chapter_block chapter_title chapter_text =
     u ''Chapter: '' @ chapter_title @ [10, 10] @ chapter_text @ [10, 10]"

text \<open>The loop of \<open>get_full_text\<close> over the chapter indices, for a processor with the
  given \<open>get_chapter_title\<close> and \<open>get_chapter_text\<close>.\<close>

fun full_text_blocks :: "(int \<Rightarrow> ustr) \<Rightarrow> (int \<Rightarrow> error + ustr) \<Rightarrow> nat list \<Rightarrow> error + ustr list" where
  "full_text_blocks get_title get_text [] = Inr []"
| "full_text_blocks get_title get_text (i # rest) =
     (case get_text (int i) of
        Inl e \<Rightarrow> Inl e
      | Inr chapter_text \<Rightarrow>
          (case full_text_blocks get_title get_text rest of
             Inl e \<Rightarrow> Inl e
           | Inr texts \<Rightarrow> Inr (chapter_block (get_title (int i)) chapter_text # texts)))"

definition PDFProcessor_get_full_text :: "pdf_processor \<Rightarrow> error + ustr" where
  "PDFProcessor_get_full_text p =
     (case full_text_blocks (PDFProcessor_get_chapter_title p) (PDFProcessor_get_chapter_text p)
             [0..<length (pdf_chapters p)] of
        Inl e \<Rightarrow> Inl (ProcessingError e)
      | Inr texts \<Rightarrow> Inr (join [10] texts))"

section \<open>processors/epub\_processor.py\<close>

text \<open>
  A document of the book, as the processor reads it: its \<open>id\<close>, its \<open>get_type()\<close>, and
  what parsing its content gives: an exception, or the parsed document, of which the
  code reads \<open>get_text()\<close> (after the removal of scripts and styles) and the texts of the
  \<open>h1\<close>, \<open>h2\<close> and \<open>h3\<close> elements, as \<open>find_all\<close> lists them.
\<close>

record soup =
  soup_text :: ustr
  soup_headings :: "ustr list"

record epub_item =
  item_id :: ustr
  item_type :: nat
  item_soup :: "error + soup"

text \<open>
  \<open>epub_spine\<close> holds the identifiers of the spine entries, \<open>epub_items\<close> is
  \<open>book.get_item_with_id\<close>. \<open>epub_ITEM_DOCUMENT\<close> is what the expression
  \<open>ebooklib.ITEM_DOCUMENT\<close> gives inside \<open>get_chapters\<close>. As the source stands, the name
  \<open>ebooklib\<close> is not bound there (\<open>get_chapters\<close> imports only \<open>epub\<close> from the
  package, \<open>_load_epub\<close> imports the package as a local name, the module does not
  import it), so the expression raises \<open>NameError\<close>; \<open>Inr\<close> is the constant of the
  library, for a source in which the name is bound.
\<close>

record epub_processor =
  epub_spine :: "ustr list"
  epub_items :: "ustr \<Rightarrow> epub_item option"
  epub_ITEM_DOCUMENT :: "error + nat"

fun spine_documents :: "epub_processor \<Rightarrow> ustr list \<Rightarrow> error + epub_item list" where
  "spine_documents p [] = Inr []"
| "spine_documents p (entry # rest) =
     (case epub_items p entry of
        None \<Rightarrow> spine_documents p rest
      | Some item \<Rightarrow>
          (case epub_ITEM_DOCUMENT p of
             Inl e \<Rightarrow> Inl e
           | Inr document \<Rightarrow>
               (case spine_documents p rest of
                  Inl e \<Rightarrow> Inl e
                | Inr chapters \<Rightarrow>
                    Inr (if item_type item = document then item # chapters else chapters))))"

definition EPUBProcessor_get_chapters :: "epub_processor \<Rightarrow> error + epub_item list" where
  "EPUBProcessor_get_chapters p =
     (case spine_documents p (epub_spine p) of
        Inl e \<Rightarrow> Inl (ProcessingError e)
      | Inr chapters \<Rightarrow> Inr chapters)"

definition EPUBProcessor_get_chapter_text :: "epub_processor \<Rightarrow> int \<Rightarrow> error + ustr" where
  "EPUBProcessor_get_chapter_text p chapter_index =
     (case EPUBProcessor_get_chapters p of
        Inl e \<Rightarrow> Inl (ProcessingError e)
      | Inr chapters \<Rightarrow>
          if chapter_index < 0 \<or> chapter_index \<ge> int (length chapters) then
            Inl (ProcessingError (IndexError chapter_index))
          else
            (case item_soup (chapters ! nat chapter_index) of
               Inl e \<Rightarrow> Inl (ProcessingError e)
             | Inr s \<Rightarrow> Inr (clean_text (soup_text s))))"

definition EPUBProcessor_get_chapter_title :: "epub_processor \<Rightarrow> int \<Rightarrow> ustr" where
  "EPUBProcessor_get_chapter_title p chapter_index =
     (case EPUBProcessor_get_chapters p of
        Inl e \<Rightarrow> fallback_title chapter_index
      | Inr chapters \<Rightarrow>
          if chapter_index < 0 \<or> chapter_index \<ge> int (length chapters) then
            fallback_title chapter_index
          else
            let chapter = chapters ! nat chapter_index
            in (case item_soup chapter of
                  Inl e \<Rightarrow> fallback_title chapter_index
                | Inr s \<Rightarrow>
                    (case filter (\<lambda>heading. strip heading \<noteq> []) (soup_headings s) of
                       heading # _ \<Rightarrow> strip heading
                     | [] \<Rightarrow>
                         if item_id chapter \<noteq> [] then item_id chapter
                         else fallback_title chapter_index)))"

definition EPUBProcessor_get_full_text :: "epub_processor \<Rightarrow> error + ustr" where
  "EPUBProcessor_get_full_text p =
     (case EPUBProcessor_get_chapters p of
        Inl e \<Rightarrow> Inl (ProcessingError e)
      | Inr chapters \<Rightarrow>
          (case full_text_blocks (EPUBProcessor_get_chapter_title p)
                  (EPUBProcessor_get_chapter_text p) [0..<length chapters] of
             Inl e \<Rightarrow> Inl (ProcessingError e)
           | Inr texts \<Rightarrow> Inr (join [10] texts)))"

section \<open>core/ebook.py\<close>

text \<open>The processor of an \<open>Ebook\<close> is one of the three, chosen by the file suffix,
  and the chapters it lists are dictionaries or documents accordingly.\<close>

datatype processor = Txt text_processor | Pdf pdf_processor | Epub epub_processor

datatype book_chapter = TextChapter text_chapter | PdfChapter pdf_chapter | EpubChapter epub_item

fun processor_get_chapters :: "processor \<Rightarrow> error + book_chapter list" where
  "processor_get_chapters (Txt p) = Inr (map TextChapter (tp_chapters p))"
| "processor_get_chapters (Pdf p) = Inr (map PdfChapter (pdf_chapters p))"
| "processor_get_chapters (Epub p) =
     (case EPUBProcessor_get_chapters p of
        Inl e \<Rightarrow> Inl e
      | Inr chapters \<Rightarrow> Inr (map EpubChapter chapters))"

fun processor_get_chapter_text :: "(uchar \<Rightarrow> bool) \<Rightarrow> processor \<Rightarrow> int \<Rightarrow> error + ustr" where
  "processor_get_chapter_text W (Txt p) i = TextProcessor_get_chapter_text W p i"
| "processor_get_chapter_text W (Pdf p) i = PDFProcessor_get_chapter_text p i"
| "processor_get_chapter_text W (Epub p) i = EPUBProcessor_get_chapter_text p i"

fun processor_get_chapter_title :: "processor \<Rightarrow> int \<Rightarrow> ustr" where
  "processor_get_chapter_title (Txt p) i = TextProcessor_get_chapter_title p i"
| "processor_get_chapter_title (Pdf p) i = PDFProcessor_get_chapter_title p i"
| "processor_get_chapter_title (Epub p) i = EPUBProcessor_get_chapter_title p i"

fun processor_get_full_text :: "processor \<Rightarrow> error + ustr" where
  "processor_get_full_text (Txt p) = Inr (TextProcessor_get_full_text p)"
| "processor_get_full_text (Pdf p) = PDFProcessor_get_full_text p"
| "processor_get_full_text (Epub p) = EPUBProcessor_get_full_text p"

text \<open>
  An \<open>Ebook\<close>: its processor and the list \<open>self.chapters\<close>, empty until
  \<open>get_chapters\<close> has filled it. Its methods return their result and the ebook as they
  leave it.
\<close>

record ebook =
  eb_processor :: processor
  eb_chapters :: "book_chapter list"

definition Ebook_get_chapters :: "ebook \<Rightarrow> (error + book_chapter list) \<times> ebook" where
  "Ebook_get_chapters e =
     (if eb_chapters e = [] then
        (case processor_get_chapters (eb_processor e) of
           Inl err \<Rightarrow> (Inl (FileError err), e)
         | Inr chapters \<Rightarrow> (Inr chapters, e\<lparr>eb_chapters := chapters\<rparr>))
      else (Inr (eb_chapters e), e))"

definition Ebook_get_chapter_text ::
  "(uchar \<Rightarrow> bool) \<Rightarrow> ebook \<Rightarrow> int \<Rightarrow> (error + ustr) \<times> ebook" where
  "Ebook_get_chapter_text W e chapter_index =
     (case Ebook_get_chapters e of
        (Inl err, e') \<Rightarrow> (Inl err, e')
      | (Inr chapters, e') \<Rightarrow>
          if chapter_index < 0 \<or> chapter_index \<ge> int (length chapters) then
            (Inl (IndexError chapter_index), e')
          else
            (case processor_get_chapter_text W (eb_processor e') chapter_index of
               Inl err \<Rightarrow> (Inl (FileError err), e')
             | Inr chapter_text \<Rightarrow> (Inr chapter_text, e')))"

definition Ebook_get_chapter_title :: "ebook \<Rightarrow> int \<Rightarrow> (error + ustr) \<times> ebook" where
  "Ebook_get_chapter_title e chapter_index =
     (case Ebook_get_chapters e of
        (Inl err, e') \<Rightarrow> (Inl err, e')
      | (Inr chapters, e') \<Rightarrow>
          if chapter_index < 0 \<or> chapter_index \<ge> int (length chapters) then
            (Inl (IndexError chapter_index), e')
          else (Inr (processor_get_chapter_title (eb_processor e') chapter_index), e'))"

definition Ebook_get_full_text :: "ebook \<Rightarrow> error + ustr" where
  "Ebook_get_full_text e =
     (case processor_get_full_text (eb_processor e) of
        Inl err \<Rightarrow> Inl (FileError err)
      | Inr full_text \<Rightarrow> Inr full_text)"

subsection \<open>Example documents\<close>

text \<open>A text file of two lines, the first of which is a chapter marker.\<close>

definition example_text_processor :: text_processor where
  "example_text_processor =
     \<lparr>tp_text = u ''Chapter 1'' @ [10] @ u ''Hello.'',
      tp_chapters =
        [\<lparr>tc_title = u ''Chapter 1'', tc_start_idx = 0, tc_end_idx = 1,
          tc_is_sentence_index = False, tc_is_full_text = False\<rparr>]\<rparr>"

text \<open>A PDF of two pages, opened with pdfplumber.\<close>

definition example_pdf :: pdf_processor where
  "example_pdf =
     load_pdf \<lparr>doc_pages = [Inr (u ''x''), Inr (u ''y'')], doc_outline = Inl AttributeError\<rparr>"

text \<open>
  An EPUB file whose spine is one document, with the heading \<open>Intro\<close>. The name
  \<open>ebooklib\<close> is not bound in \<open>get_chapters\<close>.
\<close>

definition example_epub :: epub_processor where
  "example_epub =
     \<lparr>epub_spine = [u ''ch1''],
      epub_items =
        (\<lambda>entry. if entry = u ''ch1'' then
             Some \<lparr>item_id = u ''ch1'', item_type = 9,
                   item_soup = Inr \<lparr>soup_text = u ''Intro Hello.'', soup_headings = [u ''Intro'']\<rparr>\<rparr>
           else None),
      epub_ITEM_DOCUMENT = Inl NameError\<rparr>"

definition example_bodies :: "nat \<Rightarrow> ustr" where
  "example_bodies i = (if i = 0 then u ''x'' else u ''y'')"

section \<open>converters/book\_converter.py\<close>

text \<open>
  Audio files are named by what they hold: the fragment of chunk \<open>i\<close> is
  \<open>chunk_i.<format>\<close> in the temporary directory, the default file of chapter
  \<open>chapter_index\<close> is \<open>chapter_<chapter_index + 1>_<title>.<format>\<close> there, and any other
  path is one the caller gave.
\<close>

datatype path = ChunkFile nat | ChapterFile int ustr | OutputFile ustr

text \<open>
  What a conversion does to the outside, in the order it does it: the calls of the
  progress and status callbacks, the calls of \<open>combine_audio_files\<close> with the list of
  input files and the output file, and the removal of temporary files.
\<close>

datatype status =
    NoChaptersFound
  | ConvertingChapter nat nat
  | CombiningAudioFiles
  | BookConvertedTo path
  | NoAudioChaptersGenerated
  | ErrorStatus error

datatype 'p event = Progress 'p | Status status | Combine "path list" path | Unlink path



fun combined_of :: "'p event list \<Rightarrow> (path list \<times> path) list" where
  "combined_of [] = []"
| "combined_of (Combine fs out # es) = (fs, out) # combined_of es"
| "combined_of (e # es) = combined_of es"

text \<open>
  The collaborators of a \<open>BookConverter\<close>. \<open>save_to_file text file\<close> is the synthesis
  backend: \<open>True\<close> when it writes the file, \<open>False\<close> when it raises.
  \<open>combine_audio_files files out\<close> is the concatenation utility: \<open>True\<close> when it writes
  \<open>out\<close>, \<open>False\<close> when it raises \<open>ProcessingError\<close>. \<open>uni_alnum\<close> is the table of
  \<open>\w\<close> beyond ASCII. Creating directories is taken to succeed.
\<close>

record env =
  uni_alnum :: "uchar \<Rightarrow> bool"
  save_to_file :: "ustr \<Rightarrow> path \<Rightarrow> bool"
  combine_audio_files :: "path list \<Rightarrow> path \<Rightarrow> bool"

text \<open>
  The ebook as the converter uses it: the number of chapters \<open>get_chapters\<close> returns,
  and the text and title of a chapter, each of which may raise.
\<close>

record ebook_api =
  api_get_chapters :: "error + nat"
  api_get_chapter_text :: "int \<Rightarrow> error + ustr"
  api_get_chapter_title :: "int \<Rightarrow> error + ustr"

record converter =
  conv_chunk_size :: int
  conv_keep_temp_files :: bool

text \<open>
  \<open>_process_chunk\<close>: the fragment file of the chunk, or \<open>None\<close> when the backend
  raised.
\<close>

definition process_chunk :: "env \<Rightarrow> ustr \<Rightarrow> nat \<Rightarrow> path option" where
  "process_chunk en chunk chunk_index =
     (let chunk_file = ChunkFile chunk_index
      in if save_to_file en chunk chunk_file then Some chunk_file else None)"

text \<open>
  The order in which the chunk tasks of a chapter with \<open>n\<close> chunks complete
  (\<open>as_completed\<close>): every index below \<open>n\<close> once.
\<close>

definition is_completion_order :: "nat \<Rightarrow> nat list \<Rightarrow> bool" where
  "is_completion_order n order \<longleftrightarrow> sort order = [0..<n]"

text \<open>
  \<open>convert_chapter\<close>, with the completion order of the chunk tasks as the parameter
  \<open>order\<close>. It returns the result (\<open>None\<close> is Python's \<open>None\<close>) and the trace of its
  effects; \<open>Progress (current, total)\<close> is a call \<open>progress_callback(current, total)\<close>.
\<close>

definition convert_chapter ::
  "converter \<Rightarrow> env \<Rightarrow> ebook_api \<Rightarrow> nat list \<Rightarrow> int \<Rightarrow> path option \<Rightarrow>
   (error + path option) \<times> (nat \<times> nat) event list" where
  "convert_chapter conv en ebook order chapter_index output_file =
     (case api_get_chapter_text ebook chapter_index of
        Inl e \<Rightarrow> (Inl (ConversionError e), [])
      | Inr chapter_text \<Rightarrow>
     (case api_get_chapter_title ebook chapter_index of
        Inl e \<Rightarrow> (Inl (ConversionError e), [])
      | Inr chapter_title \<Rightarrow>
     if chapter_text = [] then (Inr None, [])
     else
       let out = (case output_file of
                    None \<Rightarrow> ChapterFile (chapter_index + 1) chapter_title
                  | Some f \<Rightarrow> f);
           chunks = split_text_into_chunks (uni_alnum en) chapter_text (conv_chunk_size conv) 50
       in
         if chunks = [] then (Inr None, [])
         else if length chunks = 1 then
           (if save_to_file en (chunks ! 0) out then (Inr (Some out), [Progress (1, 1)])
            else (Inl (ConversionError External), []))
         else
           let chunk_files = List.map_filter (\<lambda>i. process_chunk en (chunks ! i) i) order;
               calls = map (\<lambda>k. Progress (k + 1, length chunks)) [0..<length order]
           in
             if chunk_files \<noteq> [] then
               (if combine_audio_files en chunk_files out then
                  (Inr (Some out),
                   calls @ [Combine chunk_files out] @
                   (if conv_keep_temp_files conv then [] else map Unlink chunk_files))
                else
                  (Inl (ConversionError (ProcessingError External)),
                   calls @ [Combine chunk_files out]))
             else (Inr None, calls)))"




subsection \<open>Example inputs\<close>

text \<open>
  A book of two chapters. With \<open>chunk_size = 6\<close> the first chapter is split into the
  three chunks \<open>aaaa.\<close>, \<open>aaaa. bbbb.\<close> and \<open>aaaa. bbbb. cccc.\<close>, the second is one
  chunk.
\<close>

definition example_ebook :: ebook_api where
  "example_ebook =
     \<lparr>api_get_chapters = Inr 2,
      api_get_chapter_text =
        (\<lambda>i. if i = 0 then Inr (u ''aaaa. bbbb. cccc.'')
             else if i = 1 then Inr (u ''dd.'') else Inl (IndexError i)),
      api_get_chapter_title =
        (\<lambda>i. if i = 0 then Inr (u ''One'')
             else if i = 1 then Inr (u ''Two'') else Inl (IndexError i))\<rparr>"

definition example_converter :: converter where
  "example_converter = \<lparr>conv_chunk_size = 6, conv_keep_temp_files = False\<rparr>"

text \<open>A backend that always succeeds, one that fails on the chunk of index 1 and one
  that always fails; concatenation succeeds.\<close>

definition working_env :: env where
  "working_env =
     \<lparr>uni_alnum = ascii_only, save_to_file = (\<lambda>chunk file. True),
      combine_audio_files = (\<lambda>files out. True)\<rparr>"

definition second_chunk_fails_env :: env where
  "second_chunk_fails_env =
     \<lparr>uni_alnum = ascii_only, save_to_file = (\<lambda>chunk file. file \<noteq> ChunkFile 1),
      combine_audio_files = (\<lambda>files out. True)\<rparr>"

definition failing_backend_env :: env where
  "failing_backend_env =
     \<lparr>uni_alnum = ascii_only, save_to_file = (\<lambda>chunk file. False),
      combine_audio_files = (\<lambda>files out. True)\<rparr>"

text \<open>The third chunk of the first chapter completes first, then the first, then the
  second.\<close>

definition example_orders :: "nat \<Rightarrow> nat list" where
  "example_orders i = (if i = 0 then [2, 0, 1] else [0])"

definition exact :: "real \<Rightarrow> real" where
  "exact x = x"

section \<open>Properties of the text segmenter\<close>

lemmas text_utils_defs =
  split_text_into_chunks_def clean_text_def split_into_sentences_def Let_def

lemmas eval_defs =
  u_def isspace_def strip_def replace_def is_nonprintable_def boundary_def behind_end_def
  behind_abbrev_def behind_title_def is_word_def split_ws.simps slice_from_def

text \<open>
  C2, as stated, fails: the empty text gives no chunk at all, and a text no longer than
  \<open>chunk_size\<close> whose cleaned form is longer (each ellipsis character becomes three
  full stops) is split into sentences like any long text.
\<close>

theorem C2_short_text_counterexample:
  "int (length ([] :: ustr)) \<le> 5 \<and>
   split_text_into_chunks ascii_only [] 5 50 \<noteq> [clean_text []] \<and>
   int (length [0x2026, 0x2026 :: uchar]) \<le> 2 \<and>
   split_text_into_chunks ascii_only [0x2026, 0x2026] 2 50 \<noteq> [clean_text [0x2026, 0x2026]]"
  unfolding text_utils_defs by (simp add: eval_defs)

text \<open>
  C2, amended: for every non-empty text whose cleaned form has length at most
  \<open>chunk_size\<close>, \<open>split_text_into_chunks\<close> returns exactly one chunk, the cleaned text.
\<close>

theorem C2_short_text_single_chunk:
  "text \<noteq> [] \<Longrightarrow> int (length (clean_text text)) \<le> chunk_size \<Longrightarrow>
   split_text_into_chunks W text chunk_size overlap = [clean_text text]"
  by (simp add: split_text_into_chunks_def)

theorem C2_short_text_single_chunk_witness:
  "u ''a   b. '' \<noteq> [] \<and> int (length (clean_text (u ''a   b. ''))) \<le> 5 \<and>
   split_text_into_chunks ascii_only (u ''a   b. '') 5 50 = [clean_text (u ''a   b. '')] \<and>
   clean_text (u ''a   b. '') = u ''a b.''"
proof -
  have ne: "u ''a   b. '' \<noteq> []" by (simp add: u_def)
  have c: "clean_text (u ''a   b. '') = u ''a b.''" unfolding text_utils_defs by (simp add: eval_defs)
  have len: "int (length (clean_text (u ''a   b. ''))) \<le> 5" unfolding c by (simp add: u_def)
  from C2_short_text_single_chunk [OF ne len] ne len c show ?thesis by blast
qed

text \<open>
  C3: chunks longer than \<open>chunk_size\<close> that hold several sentences, none of which is
  longer than \<open>chunk_size\<close>. With \<open>chunk_size = 10\<close> the second chunk is the overlap
  (the whole first chunk) followed by the second sentence, 19 characters. With
  \<open>chunk_size = 6\<close> two sentences of three characters are joined into a chunk of seven,
  since the test before appending does not count the separating space.
\<close>

theorem C3_chunk_longer_than_chunk_size:
  "split_into_sentences W (u ''abcdefgh. ijklmnop.'') = [u ''abcdefgh.'', u ''ijklmnop.''] \<and>
   split_text_into_chunks W (u ''abcdefgh. ijklmnop.'') 10 50 =
     [u ''abcdefgh.'', u ''abcdefgh. ijklmnop.''] \<and>
   int (length (u ''abcdefgh. ijklmnop.'')) > 10 \<and>
   split_into_sentences W (u ''ab. cd.'') = [u ''ab.'', u ''cd.''] \<and>
   split_text_into_chunks W (u ''ab. cd.'') 6 50 = [u ''ab. cd.''] \<and>
   int (length (u ''ab. cd.'')) > 6"
  unfolding text_utils_defs by (simp add: eval_defs)

text \<open>
  C4: with \<open>overlap = 0\<close> the slice \<open>words[-0:]\<close> is the whole word list, so the next
  buffer is seeded with every token of the closed chunk instead of none; with
  \<open>overlap = 1\<close> it is seeded with the last token.
\<close>

theorem C4_overlap_zero_seeds_whole_chunk:
  "split_text_into_chunks W (u ''ab. cd. ef.'') 7 0 = [u ''ab. cd.'', u ''ab. cd. ef.''] \<and>
   split_text_into_chunks W (u ''ab. cd. ef.'') 7 1 = [u ''ab. cd.'', u ''cd. ef.'']"
  unfolding text_utils_defs by (simp add: eval_defs)

text \<open>
  C10: an empty chunk is emitted when the first sentence alone is longer than
  \<open>chunk_size\<close> (the empty buffer is closed as a chunk), and when the text is only
  whitespace.
\<close>

theorem C10_empty_chunk_emitted:
  "split_text_into_chunks W (u ''abcdef'') 3 50 = [[], u ''abcdef''] \<and>
   split_text_into_chunks W (u '' '') 3 50 = [[]]"
  unfolding text_utils_defs by (simp add: eval_defs)

text \<open>
  The words that seed the next buffer, \<open>words[-min(len(words), overlap):]\<close>: for a
  positive \<open>overlap\<close> the last \<open>overlap\<close> words, or all of them if there are fewer; for
  \<open>overlap = 0\<close> all of them as well.
\<close>

lemma overlap_words_positive:
  "0 < overlap \<Longrightarrow>
   slice_from (- min (int (length ws)) overlap) ws = drop (length ws - nat overlap) ws"
  by (cases "ws = []") (auto simp: slice_from_def min_def nat_diff_distrib')

lemma overlap_words_zero: "slice_from (- min (int (length ws)) 0) ws = ws"
  by (simp add: slice_from_def)

text \<open>One round of the loop of \<open>split_text_into_chunks\<close>, for a positive \<open>overlap\<close>.\<close>

lemma chunk_loop_overflow:
  assumes "int (length current_chunk) + int (length sentence) > chunk_size" and "0 < overlap"
  shows "chunk_loop chunk_size overlap (sentence # rest) chunks current_chunk =
     chunk_loop chunk_size overlap rest (chunks @ [strip current_chunk])
       (join (u '' '')
          (drop (length (split_ws current_chunk) - nat overlap) (split_ws current_chunk)) @
        u '' '' @ sentence)"
  using assms by (simp add: Let_def overlap_words_positive)

text \<open>
  Every chunk is the result of \<open>strip()\<close>, so it has no whitespace at either end;
  what can fail is only that it is not empty.
\<close>

lemma dropWhile_rev_dropWhile:
  assumes "t = [] \<or> \<not> P (hd t)"
  shows "dropWhile P (rev (dropWhile P (rev t))) = rev (dropWhile P (rev t))"
proof (cases "dropWhile P (rev t) = []")
  case True
  show ?thesis unfolding True by simp
next
  case False
  have "rev t = takeWhile P (rev t) @ dropWhile P (rev t)" by simp
  then have "t = rev (dropWhile P (rev t)) @ rev (takeWhile P (rev t))"
    by (metis rev_append rev_rev_ident)
  then have "hd t = hd (rev (dropWhile P (rev t)))"
    using False by (metis hd_append2 rev_is_Nil_conv)
  moreover have "t \<noteq> []" using False by auto
  ultimately have "\<not> P (hd (rev (dropWhile P (rev t))))" using assms by simp
  then show ?thesis using False by (cases "rev (dropWhile P (rev t))") auto
qed

lemma strip_idem: "strip (strip s) = strip s"
proof -
  have "dropWhile isspace s = [] \<or> \<not> isspace (hd (dropWhile isspace s))"
    by (metis hd_dropWhile)
  then have "dropWhile isspace (strip s) = strip s"
    unfolding strip_def by (rule dropWhile_rev_dropWhile)
  then show ?thesis
    unfolding strip_def by (simp add: dropWhile_idem)
qed

lemma strip_fixed_iff:
  "strip c = c \<longleftrightarrow> c = [] \<or> (\<not> isspace (hd c) \<and> \<not> isspace (last c))"
proof (cases "c = []")
  case True
  then show ?thesis by (simp add: strip_def)
next
  case False
  show ?thesis
  proof
    assume eq: "strip c = c"
    have 1: "\<not> isspace (hd c)"
    proof
      assume "isspace (hd c)"
      then have "length (dropWhile isspace c) < length c"
        using False by (cases c) (auto simp: less_Suc_eq_le length_dropWhile_le)
      moreover have "length (strip c) \<le> length (dropWhile isspace c)"
        unfolding strip_def by (simp add: length_dropWhile_le) (metis length_dropWhile_le length_rev)
      ultimately show False using eq by simp
    qed
    have 2: "\<not> isspace (last c)"
    proof
      assume sp: "isspace (last c)"
      have d: "dropWhile isspace c = c" using 1 False by (cases c) auto
      obtain x xs where r: "rev c = x # xs" using False by (cases "rev c") auto
      have "hd (rev c) = last c" using False by (simp add: hd_rev)
      then have "isspace x" using sp r by simp
      then have "length (dropWhile isspace (rev c)) \<le> length xs"
        unfolding r by (simp add: length_dropWhile_le)
      also have "length xs < length c" using r by (metis length_Cons length_rev lessI)
      finally have "length (strip c) < length c" unfolding strip_def d by simp
      then show False using eq by simp
    qed
    from 1 2 show "c = [] \<or> (\<not> isspace (hd c) \<and> \<not> isspace (last c))" by simp
  next
    assume "c = [] \<or> (\<not> isspace (hd c) \<and> \<not> isspace (last c))"
    then have h: "\<not> isspace (hd c)" and l: "\<not> isspace (last c)" using False by auto
    have d: "dropWhile isspace c = c" using h False by (cases c) auto
    obtain x xs where r: "rev c = x # xs" using False by (cases "rev c") auto
    have "hd (rev c) = last c" using False by (simp add: hd_rev)
    then have "\<not> isspace x" using l r by simp
    then have "dropWhile isspace (rev c) = rev c" unfolding r by simp
    then show "strip c = c" unfolding strip_def d by simp
  qed
qed

lemma clean_text_stripped: "strip (clean_text t) = clean_text t"
  by (simp add: clean_text_def Let_def strip_idem) (simp add: strip_def)

lemma chunk_loop_stripped:
  "\<forall>c \<in> set chunks. strip c = c \<Longrightarrow>
   \<forall>c \<in> set (fst (chunk_loop chunk_size overlap sentences chunks current_chunk)). strip c = c"
  by (induction chunk_size overlap sentences chunks current_chunk rule: chunk_loop.induct)
     (auto simp: Let_def strip_idem)

lemma chunks_stripped:
  assumes "c \<in> set (split_text_into_chunks W t chunk_size overlap)"
  shows "c = [] \<or> (\<not> isspace (hd c) \<and> \<not> isspace (last c))"
proof -
  obtain chunks current_chunk where loop:
    "chunk_loop chunk_size overlap (split_into_sentences W (clean_text t)) [] [] =
       (chunks, current_chunk)"
    by (cases "chunk_loop chunk_size overlap (split_into_sentences W (clean_text t)) [] []")
  have "\<forall>c \<in> set chunks. strip c = c"
    using chunk_loop_stripped [of "[]" chunk_size overlap
        "split_into_sentences W (clean_text t)" "[]"] loop by simp
  then have "strip c = c"
    using assms loop
    by (auto simp: split_text_into_chunks_def Let_def clean_text_stripped strip_idem
          split: if_splits)
  then show ?thesis by (simp add: strip_fixed_iff)
qed

section \<open>Properties of the converter\<close>

lemmas example_defs =
  example_ebook_def example_converter_def working_env_def second_chunk_fails_env_def
  failing_backend_env_def example_orders_def ascii_only_def exact_def

lemma example_chunks_first:
  "split_text_into_chunks W (u ''aaaa. bbbb. cccc.'') 6 50 =
     [u ''aaaa.'', u ''aaaa. bbbb.'', u ''aaaa. bbbb. cccc.'']"
  unfolding text_utils_defs by (simp add: eval_defs)

lemma example_chunks_second: "split_text_into_chunks W (u ''dd.'') 6 50 = [u ''dd.'']"
  unfolding text_utils_defs by (simp add: eval_defs)

lemma example_texts_nonempty: "u ''aaaa. bbbb. cccc.'' \<noteq> []" "u ''dd.'' \<noteq> []"
  by (simp_all add: u_def)

lemma example_order_ok: "is_completion_order 3 [2, 0, 1]" "is_completion_order 3 [0, 1, 2]"
  "is_completion_order 1 [0]"
  unfolding is_completion_order_def by (simp_all add: upt_rec)

lemmas convert_chapter_eval =
  example_defs example_chunks_first example_chunks_second example_texts_nonempty Let_def
  process_chunk_def List.map_filter_def

subsection \<open>Traces\<close>











subsection \<open>Order of the fragments\<close>

text \<open>
  C1: the fragments are handed to \<open>combine_audio_files\<close> in completion order. When the
  third chunk completes first, its fragment is the first input of the concatenation;
  the same chapter with the tasks completing in index order gives the files in index
  order.
\<close>

theorem C1_fragments_in_completion_order:
  "is_completion_order 3 [2, 0, 1] \<and>
   combined_of (snd (convert_chapter example_converter working_env example_ebook [2, 0, 1] 0 None)) =
     [([ChunkFile 2, ChunkFile 0, ChunkFile 1], ChapterFile 1 (u ''One''))] \<and>
   combined_of (snd (convert_chapter example_converter working_env example_ebook [0, 1, 2] 0 None)) =
     [([ChunkFile 0, ChunkFile 1, ChunkFile 2], ChapterFile 1 (u ''One''))]"
proof (intro conjI)
  show "is_completion_order 3 [2, 0, 1]" by (rule example_order_ok)
qed (simp_all add: convert_chapter_def convert_chapter_eval)

subsection \<open>Failed chunks\<close>




subsection \<open>Progress\<close>










section \<open>Properties of the document extractors\<close>

lemmas extractor_eval =
  load_pdf_def extract_chapters_def create_default_chapters_def default_chapter_def
  str_int_def str_nat.simps upt_rec Let_def

lemma example_pdf_chapters:
  "pdf_chapters example_pdf =
     [\<lparr>pc_title = u ''Pages 1-1'', pc_page_start = 0, pc_page_end = Some 0, pc_level = 0\<rparr>,
      \<lparr>pc_title = u ''Pages 2-2'', pc_page_start = 1, pc_page_end = Some 1, pc_level = 0\<rparr>]"
  "pdf_pages example_pdf = [Inr (u ''x''), Inr (u ''y'')]"
  unfolding example_pdf_def by (simp_all add: extractor_eval) (simp add: u_def)

lemma clean_x: "clean_text (u ''x'') = u ''x''" "clean_text (u ''y'') = u ''y''"
  unfolding text_utils_defs by (simp_all add: eval_defs)

lemma clean_text_empty: "clean_text [] = []"
  by (simp add: clean_text_def)

lemma example_pdf_texts:
  "PDFProcessor_get_chapter_text example_pdf 0 = Inr (u ''x'')"
  "PDFProcessor_get_chapter_text example_pdf 1 = Inr (u ''y'')"
  unfolding PDFProcessor_get_chapter_text_def
  by (simp_all add: example_pdf_chapters py_get_def upto.simps clean_x clean_text_empty)

lemma example_pdf_titles:
  "PDFProcessor_get_chapter_title example_pdf 0 = u ''Pages 1-1''"
  "PDFProcessor_get_chapter_title example_pdf 1 = u ''Pages 2-2''"
  unfolding PDFProcessor_get_chapter_title_def by (simp_all add: example_pdf_chapters)

subsection \<open>Chapter text for an index out of range\<close>

text \<open>
  For an index outside \<open>[0, len(chapters))\<close>, \<open>get_chapter_text\<close> of a processor that
  can list its chapters raises \<open>ProcessingError\<close> with the message of the
  \<open>IndexError\<close> "Chapter index out of range", and \<open>Ebook.get_chapter_text\<close> raises that
  \<open>IndexError\<close>. The text and the PDF processor can always list their chapters.
\<close>

lemma chapter_text_out_of_range:
  assumes "chapter_index < 0 \<or> chapter_index \<ge> int (length chapters)"
  shows "(processor_get_chapters p = Inr chapters \<longrightarrow>
            processor_get_chapter_text W p chapter_index =
              Inl (ProcessingError (IndexError chapter_index))) \<and>
         (fst (Ebook_get_chapters e) = Inr chapters \<longrightarrow>
            fst (Ebook_get_chapter_text W e chapter_index) = Inl (IndexError chapter_index))"
proof (intro conjI impI)
  assume "processor_get_chapters p = Inr chapters"
  then show "processor_get_chapter_text W p chapter_index =
      Inl (ProcessingError (IndexError chapter_index))"
    using assms
    by (cases p)
       (auto simp: TextProcessor_get_chapter_text_def PDFProcessor_get_chapter_text_def
          EPUBProcessor_get_chapter_text_def split: sum.splits)
next
  assume "fst (Ebook_get_chapters e) = Inr chapters"
  then show "fst (Ebook_get_chapter_text W e chapter_index) = Inl (IndexError chapter_index)"
    using assms by (auto simp: Ebook_get_chapter_text_def split: prod.splits sum.splits)
qed

text \<open>
  \<open>get_chapters\<close> of the EPUB processor raises as soon as one entry of the spine is
  found in the book, since the comparison of its type then reads the unbound name.
\<close>

lemma spine_documents_unbound:
  assumes "epub_ITEM_DOCUMENT p = Inl e" and "\<exists>entry \<in> set spine. epub_items p entry \<noteq> None"
  shows "spine_documents p spine = Inl e"
  using assms(2)
proof (induction spine)
  case Nil
  then show ?case by simp
next
  case (Cons entry rest)
  then show ?case using assms(1) by (cases "epub_items p entry") auto
qed

lemma example_epub_chapters:
  "EPUBProcessor_get_chapters example_epub = Inl (ProcessingError NameError)"
  unfolding EPUBProcessor_get_chapters_def
  by (simp add: spine_documents_unbound [of example_epub NameError] example_epub_def)

text \<open>
  C5: for the EPUB strategy \<open>get_chapter_text\<close> does not fail with the out-of-range
  condition. The book has one document, so the index 5 is out of range; the processor
  raises \<open>ProcessingError\<close> for the \<open>NameError\<close> of \<open>get_chapters\<close>, before it compares
  the index with anything, and \<open>Ebook.get_chapter_text\<close> raises \<open>FileError\<close> for it.
  For the valid index 0 the result is the same.
\<close>

theorem C5_epub_out_of_range_not_reported:
  "EPUBProcessor_get_chapter_text example_epub 5 =
     Inl (ProcessingError (ProcessingError NameError)) \<and>
   EPUBProcessor_get_chapter_text example_epub 0 =
     Inl (ProcessingError (ProcessingError NameError)) \<and>
   fst (Ebook_get_chapter_text W \<lparr>eb_processor = Epub example_epub, eb_chapters = []\<rparr> 5) =
     Inl (FileError (ProcessingError NameError))"
  by (simp add: EPUBProcessor_get_chapter_text_def Ebook_get_chapter_text_def
        Ebook_get_chapters_def example_epub_chapters)

subsection \<open>Chapter titles\<close>

text \<open>The fallback title is not empty, and neither is a title of a document of an EPUB
  file: a heading is used only if it is not blank, the identifier only if it is not
  empty.\<close>

lemma fallback_title_nonempty: "fallback_title i \<noteq> []"
  by (simp add: fallback_title_def u_def)

lemma filter_head: "filter P xs = x # rest \<Longrightarrow> P x"
proof -
  assume "filter P xs = x # rest"
  then have "x \<in> set (filter P xs)" by simp
  then show "P x" by simp
qed

lemma heading_title_nonempty:
  "d \<noteq> [] \<Longrightarrow>
   (case filter (\<lambda>heading. strip heading \<noteq> []) hs of
      [] \<Rightarrow> d
    | heading # _ \<Rightarrow> strip heading) \<noteq> []"
proof (cases "filter (\<lambda>heading. strip heading \<noteq> []) hs")
  case Nil
  assume "d \<noteq> []"
  then show ?thesis using Nil by simp
next
  case (Cons heading rest)
  then have "strip heading \<noteq> []" by (rule filter_head)
  then show ?thesis using Cons by simp
qed

lemma EPUBProcessor_title_nonempty: "EPUBProcessor_get_chapter_title p i \<noteq> []"
  unfolding EPUBProcessor_get_chapter_title_def Let_def
  by (simp add: fallback_title_nonempty heading_title_nonempty split: sum.split)

lemma example_epub_fallback_title: "fallback_title 0 = u ''Chapter 1''"
  by (simp add: fallback_title_def str_int_def str_nat.simps u_def)

text \<open>
  C6: for the EPUB strategy \<open>Ebook.get_chapter_title\<close> raises. The book has one
  document, so 0 is a valid index. \<open>Ebook.get_chapter_title\<close> calls \<open>get_chapters\<close>
  outside its \<open>try\<close>, and \<open>get_chapters\<close> raises \<open>FileError\<close> for the error of the
  processor; there is no fallback to \<open>Chapter 1\<close>. The processor itself catches the
  error and returns \<open>Chapter 1\<close>, not the heading of the document.
\<close>

theorem C6_epub_title_raises:
  "fst (Ebook_get_chapters \<lparr>eb_processor = Epub example_epub, eb_chapters = []\<rparr>) =
     Inl (FileError (ProcessingError NameError)) \<and>
   fst (Ebook_get_chapter_title \<lparr>eb_processor = Epub example_epub, eb_chapters = []\<rparr> 0) =
     Inl (FileError (ProcessingError NameError)) \<and>
   EPUBProcessor_get_chapter_title example_epub 0 = u ''Chapter 1''"
  by (simp add: Ebook_get_chapter_title_def Ebook_get_chapters_def
        EPUBProcessor_get_chapter_title_def example_epub_chapters example_epub_fallback_title)

subsection \<open>Full text\<close>

lemma full_text_blocks_ok:
  assumes "\<And>i. i \<in> set is \<Longrightarrow> get_text (int i) = Inr (body i)"
  shows "full_text_blocks get_title get_text is =
     Inr (map (\<lambda>i. chapter_block (get_title (int i)) (body i)) is)"
  using assms by (induction "is") simp_all

text \<open>
  C8, as stated, fails. For a PDF of two chapters \<open>get_full_text\<close> puts a newline
  between the two blocks (\<open>"\n".join(texts)\<close>), so the result is not their
  concatenation; for a text file it is the cleaned text of the file, with no block at
  all.
\<close>

theorem C8_full_text_counterexample:
  "PDFProcessor_get_chapter_title example_pdf 0 = u ''Pages 1-1'' \<and>
   PDFProcessor_get_chapter_text example_pdf 0 = Inr (u ''x'') \<and>
   PDFProcessor_get_chapter_title example_pdf 1 = u ''Pages 2-2'' \<and>
   PDFProcessor_get_chapter_text example_pdf 1 = Inr (u ''y'') \<and>
   processor_get_full_text (Pdf example_pdf) =
     Inr (chapter_block (u ''Pages 1-1'') (u ''x'') @ [10] @ chapter_block (u ''Pages 2-2'') (u ''y'')) \<and>
   processor_get_full_text (Pdf example_pdf) \<noteq>
     Inr (chapter_block (u ''Pages 1-1'') (u ''x'') @ chapter_block (u ''Pages 2-2'') (u ''y'')) \<and>
   TextProcessor_get_chapter_title example_text_processor 0 = u ''Chapter 1'' \<and>
   TextProcessor_get_chapter_text ascii_only example_text_processor 0 = Inr (u ''Chapter 1 Hello.'') \<and>
   processor_get_full_text (Txt example_text_processor) = Inr (u ''Chapter 1 Hello.'') \<and>
   processor_get_full_text (Txt example_text_processor) \<noteq>
     Inr (chapter_block (u ''Chapter 1'') (u ''Chapter 1 Hello.''))"
proof -
  have full: "processor_get_full_text (Pdf example_pdf) =
     Inr (chapter_block (u ''Pages 1-1'') (u ''x'') @ [10] @ chapter_block (u ''Pages 2-2'') (u ''y''))"
    by (simp add: PDFProcessor_get_full_text_def example_pdf_chapters(1) upt_rec
          example_pdf_texts example_pdf_titles)
  have neq: "chapter_block (u ''Pages 1-1'') (u ''x'') @ [10] @ chapter_block (u ''Pages 2-2'') (u ''y'') \<noteq>
     chapter_block (u ''Pages 1-1'') (u ''x'') @ chapter_block (u ''Pages 2-2'') (u ''y'')"
    by (simp add: chapter_block_def u_def)
  have c: "clean_text (tp_text example_text_processor) = u ''Chapter 1 Hello.''"
    unfolding text_utils_defs example_text_processor_def by (simp add: eval_defs)
  have title: "TextProcessor_get_chapter_title example_text_processor 0 = u ''Chapter 1''"
    by (simp add: TextProcessor_get_chapter_title_def example_text_processor_def)
  have lines: "join [10] (py_slice 0 2 (split_on 10 (tp_text example_text_processor))) =
     tp_text example_text_processor"
    by (simp add: example_text_processor_def u_def py_slice_def slice_index_def)
  have body: "TextProcessor_get_chapter_text ascii_only example_text_processor 0 =
     Inr (u ''Chapter 1 Hello.'')"
    unfolding TextProcessor_get_chapter_text_def
    apply (simp add: Let_def lines [unfolded example_text_processor_def, simplified]
        c [unfolded example_text_processor_def, simplified] example_text_processor_def)
    apply (simp add: u_def py_slice_def slice_index_def)
    done
  have tfull: "processor_get_full_text (Txt example_text_processor) = Inr (u ''Chapter 1 Hello.'')"
    by (simp add: TextProcessor_get_full_text_def c)
  have tneq: "u ''Chapter 1 Hello.'' \<noteq> chapter_block (u ''Chapter 1'') (u ''Chapter 1 Hello.'')"
    by (simp add: chapter_block_def u_def)
  show ?thesis
    using full neq c title body tfull tneq example_pdf_texts example_pdf_titles by simp
qed

text \<open>
  C8, amended: when the text of every chapter can be extracted, \<open>get_full_text\<close> of
  the PDF and of the EPUB processor returns the blocks
  \<open>"Chapter: <title>\n\n<body>\n\n"\<close> of all chapters, in chapter order, joined by one
  newline between consecutive blocks; \<open>get_full_text\<close> of the text processor returns
  the cleaned text of the file.
\<close>

theorem C8_full_text_joined_blocks:
  assumes "processor_get_chapters p = Inr chapters"
    and "\<And>i. i < length chapters \<Longrightarrow> processor_get_chapter_text W p (int i) = Inr (body i)"
  shows "processor_get_full_text p =
     Inr (case p of
            Txt t \<Rightarrow> clean_text (tp_text t)
          | _ \<Rightarrow> join [10] (map (\<lambda>i. chapter_block (processor_get_chapter_title p (int i)) (body i))
                     [0..<length chapters]))"
proof (cases p)
  case (Txt t)
  then show ?thesis by (simp add: TextProcessor_get_full_text_def)
next
  case (Pdf d)
  have len: "length chapters = length (pdf_chapters d)" using assms(1) Pdf by auto
  have "full_text_blocks (PDFProcessor_get_chapter_title d) (PDFProcessor_get_chapter_text d)
      [0..<length (pdf_chapters d)] =
     Inr (map (\<lambda>i. chapter_block (PDFProcessor_get_chapter_title d (int i)) (body i))
        [0..<length (pdf_chapters d)])"
    by (rule full_text_blocks_ok) (use assms(2) Pdf len in simp)
  then show ?thesis using Pdf len by (simp add: PDFProcessor_get_full_text_def)
next
  case (Epub b)
  obtain items where items: "EPUBProcessor_get_chapters b = Inr items"
    and len: "length chapters = length items"
    using assms(1) Epub by (auto split: sum.splits)
  have "full_text_blocks (EPUBProcessor_get_chapter_title b) (EPUBProcessor_get_chapter_text b)
      [0..<length items] =
     Inr (map (\<lambda>i. chapter_block (EPUBProcessor_get_chapter_title b (int i)) (body i))
        [0..<length items])"
    by (rule full_text_blocks_ok) (use assms(2) Epub len in simp)
  then show ?thesis using Epub len items by (simp add: EPUBProcessor_get_full_text_def)
qed

theorem C8_full_text_joined_blocks_witness:
  "processor_get_full_text (Pdf example_pdf) =
     Inr (chapter_block (u ''Pages 1-1'') (u ''x'') @ [10] @ chapter_block (u ''Pages 2-2'') (u ''y''))"
proof -
  have 1: "processor_get_chapters (Pdf example_pdf) = Inr (map PdfChapter (pdf_chapters example_pdf))"
    by simp
  have 2: "processor_get_chapter_text ascii_only (Pdf example_pdf) (int i) = Inr (example_bodies i)"
    if "i < length (map PdfChapter (pdf_chapters example_pdf))" for i
  proof -
    have "i = 0 \<or> i = 1" using that by (auto simp: example_pdf_chapters(1))
    then show ?thesis by (auto simp: example_pdf_texts example_bodies_def)
  qed
  have l: "[0..<2] = [0, 1]" by (simp add: upt_rec)
  from C8_full_text_joined_blocks [of "Pdf example_pdf" _ ascii_only example_bodies, OF 1 2]
  show ?thesis
    by (simp add: example_pdf_chapters(1) l example_pdf_titles example_bodies_def)
qed

end
